theory Spec2Isabelle
  imports Main "HOL-Library.AList"
begin

section \<open>Common values\<close>

text \<open>
  Texts typed by a user or produced by the programme (e-mail addresses, passwords,
  tokens, header values, error names) are \<open>string\<close>s.  The human-readable messages
  of the server are Chinese literals; they are written as lists of Unicode code points
  (\<open>utext\<close>), exactly as they stand in the source.  A \<open>Date\<close> is its number of
  milliseconds since the epoch.
\<close>

type_synonym utext = "nat list"
type_synonym time = int

text \<open>A thrown JavaScript error, as far as a \<open>catch\<close> block looks at it: its
  \<open>name\<close> and its \<open>message\<close>.\<close>

datatype js_error = JsError (name: string) (message: string)

section \<open>Token issuer (utils/jwt.js)\<close>

text \<open>
  The claims of a JSON web token.  \<open>generateAccessToken\<close> always writes
  \<open>userId\<close>, \<open>type\<close>, \<open>iat\<close> and \<open>exp\<close>; a token signed elsewhere with the same
  secret may lack \<open>type\<close> or \<open>exp\<close>, hence the options.
\<close>

record payload =
  userId :: string
  tok_type :: "string option"
  iat :: int
  expiry :: "int option"

text \<open>
  The library \<open>jsonwebtoken\<close> is a dependency, not part of the repository.  It is
  modelled symbolically, after its documented behaviour: a token is either a text that
  is no JWT, or a payload together with the key that signed it.  \<open>jwt.sign\<close> with
  \<open>expiresIn\<close> stamps \<open>iat = floor(now / 1000)\<close> and \<open>exp = iat + expiresIn\<close>
  (in seconds); \<open>jwt.verify\<close> rejects a malformed text and a foreign signature
  with a \<open>JsonWebTokenError\<close>, and a token whose \<open>exp\<close> is not after the current
  second with a \<open>TokenExpiredError\<close>, in this order.  For a text that is no JWT the
  message tells whether it is empty, does not have three parts separated by dots, or
  cannot be decoded.
\<close>

datatype token = Garbage string | Signed (signing_key: string) (claims: payload)

definition jwt_sign :: "string \<Rightarrow> string \<Rightarrow> string \<Rightarrow> int \<Rightarrow> time \<Rightarrow> token" where
  "jwt_sign uid ty secret expiresIn now =
     Signed secret \<lparr>userId = uid, tok_type = Some ty, iat = now div 1000,
                    expiry = Some (now div 1000 + expiresIn)\<rparr>"

fun jwt_verify :: "string \<Rightarrow> time \<Rightarrow> token \<Rightarrow> js_error + payload" where
  "jwt_verify secret now (Garbage s) =
     Inl (JsError ''JsonWebTokenError''
           (if s = [] then ''jwt must be provided''
            else if length (filter (\<lambda>c. c = CHR ''.'') s) \<noteq> 2 then ''jwt malformed''
            else ''invalid token''))"
| "jwt_verify secret now (Signed k p) =
     (if k \<noteq> secret then Inl (JsError ''JsonWebTokenError'' ''invalid signature'')
      else case expiry p of
             None \<Rightarrow> Inr p
           | Some e \<Rightarrow>
               if now div 1000 \<ge> e then Inl (JsError ''TokenExpiredError'' ''jwt expired'')
               else Inr p)"

text \<open>\<open>JWT_SECRET = process.env.JWT_SECRET || '...'\<close>: an unset or empty variable
  falls back to the built-in key.\<close>

definition JWT_SECRET :: "string option \<Rightarrow> string" where
  "JWT_SECRET env_secret =
     (case env_secret of
        None \<Rightarrow> ''your-secret-key-change-in-production''
      | Some s \<Rightarrow> if s = [] then ''your-secret-key-change-in-production'' else s)"

text \<open>\<open>JWT_EXPIRES_IN = '15m'\<close>, that is 900 seconds; \<open>REFRESH_TOKEN_EXPIRES_IN\<close>
  is seven days in milliseconds.\<close>

definition JWT_EXPIRES_IN :: int where
  "JWT_EXPIRES_IN = 15 * 60"

definition REFRESH_TOKEN_EXPIRES_IN :: int where
  "REFRESH_TOKEN_EXPIRES_IN = 7 * 24 * 60 * 60 * 1000"

definition generateAccessToken :: "string \<Rightarrow> time \<Rightarrow> string \<Rightarrow> token" where
  "generateAccessToken secret now uid = jwt_sign uid ''access'' secret JWT_EXPIRES_IN now"

text \<open>
  \<open>verifyAccessToken\<close> calls \<open>jwt.verify\<close> first and looks at the \<open>type\<close> claim of
  what it returns; any error is rethrown unchanged.  The verifier is a parameter, so
  that the middleware can be stated for an arbitrary behaviour of the library on the
  text of a header.
\<close>

definition verifyAccessToken :: "('t \<Rightarrow> js_error + payload) \<Rightarrow> 't \<Rightarrow> js_error + payload" where
  "verifyAccessToken verify t =
     (case verify t of
        Inl e \<Rightarrow> Inl e
      | Inr decoded \<Rightarrow>
          if tok_type decoded \<noteq> Some ''access'' then Inl (JsError ''Error'' ''Invalid token type'')
          else Inr decoded)"

definition getRefreshTokenExpiry :: "time \<Rightarrow> time" where
  "getRefreshTokenExpiry now = now + REFRESH_TOKEN_EXPIRES_IN"

section \<open>The in-memory store (config/memoryDb.js)\<close>

text \<open>
  The controllers are run against the in-memory models, the store whose code is part of
  the repository.  A \<open>RefreshTokenModel\<close> instance is a JavaScript object: the
  \<open>Map\<close> named \<open>refreshTokens\<close> holds references to such objects, and the
  controller mutates an object it got from the map.  So the objects live in a store
  \<open>rt_obj\<close> from addresses to field values, and the map, an association list in
  insertion order, sends a key to an address.  \<open>rt_next\<close> is the next unused address.
\<close>

record public_user =
  u_id :: string
  email :: string
  nickname :: string
  avatar :: "string option"
  isEmailVerified :: bool
  u_createdAt :: time
  u_updatedAt :: time
  lastLoginAt :: "time option"

record user = public_user +
  password :: string

record refresh_doc =
  rt_id :: string
  rt_token :: string
  rt_userId :: string
  rt_expiresAt :: time
  rt_createdAt :: time

record db =
  users :: "(string \<times> user) list"
  rt_obj :: "nat \<Rightarrow> refresh_doc"
  rt_next :: nat
  refreshTokens :: "(string \<times> nat) list"

text \<open>\<open>save()\<close> of the object at address \<open>a\<close>: \<open>refreshTokens.set(this.token, this)\<close>.\<close>

definition rt_save :: "nat \<Rightarrow> db \<Rightarrow> db" where
  "rt_save a st = st\<lparr>refreshTokens := AList.update (rt_token (rt_obj st a)) a (refreshTokens st)\<rparr>"

text \<open>\<open>RefreshTokenModel.create(data)\<close>: a new object, then \<open>save()\<close>.\<close>

definition rt_create :: "string \<Rightarrow> time \<Rightarrow> string \<Rightarrow> string \<Rightarrow> time \<Rightarrow> db \<Rightarrow> db" where
  "rt_create uuid now tok uid expires st =
     (let a = rt_next st;
          st1 = st\<lparr>rt_obj := (rt_obj st)(a := \<lparr>rt_id = uuid, rt_token = tok, rt_userId = uid,
                                               rt_expiresAt = expires, rt_createdAt = now\<rparr>),
                   rt_next := Suc a\<rparr>
      in rt_save a st1)"

text \<open>
  \<open>RefreshTokenModel.findOne(query)\<close> with \<open>query = {token, expiresAt: {$gt: d}}\<close>;
  \<open>gt = None\<close> is a query without the \<open>expiresAt\<close> part.  The result is the
  reference held by the map, or \<open>null\<close>.
\<close>

definition rt_findOne :: "db \<Rightarrow> string \<Rightarrow> time option \<Rightarrow> nat option" where
  "rt_findOne st tok gt =
     (if tok \<noteq> [] then
        (case map_of (refreshTokens st) tok of
           None \<Rightarrow> None
         | Some a \<Rightarrow>
             (case gt of
                None \<Rightarrow> Some a
              | Some d \<Rightarrow> if rt_expiresAt (rt_obj st a) > d then Some a else None))
      else None)"

text \<open>\<open>RefreshTokenModel.deleteOne({token})\<close>.\<close>

definition rt_deleteOne :: "string \<Rightarrow> db \<Rightarrow> db" where
  "rt_deleteOne tok st =
     (if tok \<noteq> [] then st\<lparr>refreshTokens := AList.delete tok (refreshTokens st)\<rparr> else st)"

section \<open>Session protocol, server side (controllers/authController.js)\<close>

text \<open>
  What a handler reads from its environment: the clock (one reading per request), the
  signing key, whether \<open>NODE_ENV\<close> is \<open>production\<close>, the 64 hexadecimal digits
  \<open>crypto.randomBytes(32)\<close> yields, and the identifiers \<open>uuidv4()\<close> yields.
  With texts for the fields of a body, no call that \<open>register\<close>,
  \<open>refreshAccessToken\<close> or \<open>logout\<close> makes on the in-memory models throws, so
  their \<open>catch\<close> branch (status 500) is not reached and has no counterpart here.
  \<open>login\<close> calls \<open>bcrypt.compare\<close>, which can throw; its \<open>catch\<close> branch is
  part of the model.
\<close>

record env =
  clock :: time
  jwt_key :: string
  production :: bool
  fresh_token :: string
  uuid1 :: string
  uuid2 :: string

text \<open>A validation error of express-validator, reduced to the field it is about and
  its message.\<close>

record verror =
  param :: string
  msg :: utext

datatype cookie_op =
    NoCookie
  | SetCookie string bool bool string int
  | ClearCookie

datatype body =
    ErrorsB "verror list"
  | ErrorB utext
  | ErrorCodeB utext string
  | AuthB utext public_user token
  | TokenB token
  | MessageB utext

record response =
  status :: nat
  json :: body
  cookie :: cookie_op

text \<open>\<open>res.cookie('refreshToken', value, {httpOnly: true, secure, sameSite: 'strict', maxAge})\<close>.\<close>

definition refresh_cookie :: "env \<Rightarrow> string \<Rightarrow> cookie_op" where
  "refresh_cookie e v = SetCookie v True (production e) ''strict'' REFRESH_TOKEN_EXPIRES_IN"

text \<open>The two 401 answers of \<open>refreshAccessToken\<close>: no refresh token was sent; the
  refresh token is invalid or has expired.\<close>

definition MissingToken :: response where
  "MissingToken =
     \<lparr>status = 401,
      json = ErrorB [0x672a, 0x63d0, 0x4f9b, 0x5237, 0x65b0, 0x4ee4, 0x724c],
      cookie = NoCookie\<rparr>"

definition InvalidOrExpiredToken :: response where
  "InvalidOrExpiredToken =
     \<lparr>status = 401,
      json = ErrorB [0x65e0, 0x6548, 0x6216, 0x5df2, 0x8fc7, 0x671f, 0x7684, 0x5237, 0x65b0,
                     0x4ee4, 0x724c],
      cookie = NoCookie\<rparr>"

text \<open>
  \<open>refreshAccessToken(req, res)\<close>.  \<open>ck\<close> is \<open>req.cookies.refreshToken\<close>; an
  absent cookie and an empty one are both falsy.  On success the object found is
  mutated (new token value, new expiry) and saved.
\<close>

definition refreshAccessToken :: "env \<Rightarrow> string option \<Rightarrow> db \<Rightarrow> response \<times> db" where
  "refreshAccessToken e ck st =
     (case ck of
        None \<Rightarrow> (MissingToken, st)
      | Some refreshToken \<Rightarrow>
          if refreshToken = [] then (MissingToken, st)
          else
            (case rt_findOne st refreshToken (Some (clock e)) of
               None \<Rightarrow> (InvalidOrExpiredToken, st)
             | Some tokenDoc \<Rightarrow>
                 let accessToken = generateAccessToken (jwt_key e) (clock e) (rt_userId (rt_obj st tokenDoc));
                     newRefreshToken = fresh_token e;
                     st1 = st\<lparr>rt_obj := (rt_obj st)
                                (tokenDoc := (rt_obj st tokenDoc)
                                   \<lparr>rt_token := newRefreshToken,
                                    rt_expiresAt := getRefreshTokenExpiry (clock e)\<rparr>)\<rparr>;
                     st2 = rt_save tokenDoc st1
                 in (\<lparr>status = 200, json = TokenB accessToken,
                      cookie = refresh_cookie e newRefreshToken\<rparr>, st2)))"

text \<open>\<open>logout(req, res)\<close>: the answer is always \<open>{message: ...}\<close> ("logged out") with
  status 200 and a cleared cookie.\<close>

definition logout :: "string option \<Rightarrow> db \<Rightarrow> response \<times> db" where
  "logout ck st =
     (let st' = (case ck of
                   None \<Rightarrow> st
                 | Some refreshToken \<Rightarrow>
                     if refreshToken \<noteq> [] then rt_deleteOne refreshToken st else st)
      in (\<lparr>status = 200, json = MessageB [0x767b, 0x51fa, 0x6210, 0x529f], cookie = ClearCookie\<rparr>,
          st'))"

subsection \<open>Users\<close>

text \<open>
  A \<open>UserModel\<close> object is stored under its \<open>_id\<close>, which never changes, so the
  map \<open>users\<close> holds the objects themselves.  \<open>or_default a b\<close> is \<open>a || b\<close> for a
  text \<open>a\<close> that may be undefined: undefined and the empty text are falsy.
  \<open>before_at s\<close> is \<open>s.split('@')[0]\<close>.
\<close>

definition or_default :: "string option \<Rightarrow> string \<Rightarrow> string" where
  "or_default a b = (case a of None \<Rightarrow> b | Some s \<Rightarrow> if s = [] then b else s)"

definition before_at :: "string \<Rightarrow> string" where
  "before_at s = takeWhile (\<lambda>c. c \<noteq> CHR ''@'') s"

text \<open>The constructor of \<open>UserModel\<close>, called with \<open>{email, password, nickname}\<close>.\<close>

definition new_User :: "string \<Rightarrow> time \<Rightarrow> string \<Rightarrow> string \<Rightarrow> string option \<Rightarrow> user" where
  "new_User uuid now em pw nick =
     \<lparr>u_id = uuid, email = em, nickname = or_default nick (before_at em), avatar = None,
      isEmailVerified = False, u_createdAt = now, u_updatedAt = now, lastLoginAt = None,
      password = pw\<rparr>"

text \<open>\<open>save()\<close> stamps \<open>updatedAt\<close> and sets the object under its \<open>_id\<close>; it
  returns the object.\<close>

definition user_save :: "time \<Rightarrow> user \<Rightarrow> db \<Rightarrow> user \<times> db" where
  "user_save now u st =
     (let u' = u\<lparr>u_updatedAt := now\<rparr>
      in (u', st\<lparr>users := AList.update (u_id u') u' (users st)\<rparr>))"

text \<open>\<open>UserModel.findOne({email})\<close>: the first user, in insertion order, with this
  address; an empty address finds nobody.\<close>

definition user_findOne :: "db \<Rightarrow> string \<Rightarrow> user option" where
  "user_findOne st em =
     (if em \<noteq> [] then find (\<lambda>u. email u = em) (map snd (users st)) else None)"

text \<open>\<open>toJSON()\<close>: every field but the password.\<close>

definition toJSON :: "user \<Rightarrow> public_user" where
  "toJSON u = public_user.truncate u"

subsection \<open>Registration and login\<close>

text \<open>
  The body \<open>register\<close> reads, after the sanitizers of its route have run:
  \<open>email\<close> and \<open>password\<close> are texts, \<open>nickname\<close> may be undefined.
\<close>

record auth_body =
  b_email :: string
  b_password :: string
  b_nickname :: "string option"

text \<open>
  \<open>register(req, res)\<close>.  \<open>errors\<close> is \<open>validationResult(req).array()\<close>, what the
  validation chains of the route left on the request.
\<close>

definition register :: "env \<Rightarrow> verror list \<Rightarrow> auth_body \<Rightarrow> db \<Rightarrow> response \<times> db" where
  "register e errors b st =
     (if errors \<noteq> [] then (\<lparr>status = 400, json = ErrorsB errors, cookie = NoCookie\<rparr>, st)
      else
        (case user_findOne st (b_email b) of
           Some existingUser \<Rightarrow>
             (\<lparr>status = 400,
               json = ErrorB [0x8be5, 0x90ae, 0x7bb1, 0x5df2, 0x88ab, 0x6ce8, 0x518c],
               cookie = NoCookie\<rparr>, st)
         | None \<Rightarrow>
             let (u, st1) =
                   user_save (clock e)
                     (new_User (uuid1 e) (clock e) (b_email b) (b_password b)
                        (Some (or_default (b_nickname b) (before_at (b_email b))))) st;
                 accessToken = generateAccessToken (jwt_key e) (clock e) (u_id u);
                 refreshToken = fresh_token e;
                 st2 = rt_create (uuid2 e) (clock e) refreshToken (u_id u)
                         (getRefreshTokenExpiry (clock e)) st1
             in (\<lparr>status = 201,
                  json = AuthB [0x6ce8, 0x518c, 0x6210, 0x529f] (toJSON u) accessToken,
                  cookie = refresh_cookie e refreshToken\<rparr>, st2)))"

text \<open>
  The body \<open>login\<close> reads.  Its route checks the password with \<open>notEmpty()\<close>
  only, so the password is whatever \<open>express.json()\<close> made of the field: a text or
  a number.
\<close>

datatype json_value = JString string | JNumber int

record login_body =
  l_email :: string
  l_password :: json_value

text \<open>
  \<open>bcrypt.compare(s, hash)\<close> of the library bcryptjs, a dependency, after its
  documented behaviour: it throws when \<open>s\<close> is no text, answers \<open>false\<close> when the
  stored text does not have the 60 characters of a hash, and otherwise hashes and
  compares, which may throw as well; \<open>hashed\<close> stands for that last step.
\<close>

definition bcrypt_compare ::
  "(string \<Rightarrow> string \<Rightarrow> js_error + bool) \<Rightarrow> json_value \<Rightarrow> string \<Rightarrow> js_error + bool" where
  "bcrypt_compare hashed s hash =
     (case s of
        JNumber n \<Rightarrow> Inl (JsError ''Error'' ''Illegal arguments: number, string'')
      | JString t \<Rightarrow> if length hash \<noteq> 60 then Inr False else hashed t hash)"

text \<open>
  \<open>login(req, res)\<close>.  \<open>compare candidate stored\<close> is \<open>user.comparePassword\<close>,
  that is \<open>bcrypt.compare\<close>; it is a parameter, and when it throws the \<open>catch\<close>
  block answers with status 500 and "login failed, please try again later".
\<close>

definition login ::
  "env \<Rightarrow> (json_value \<Rightarrow> string \<Rightarrow> js_error + bool) \<Rightarrow> verror list \<Rightarrow> login_body \<Rightarrow> db
     \<Rightarrow> response \<times> db" where
  "login e compare errors b st =
     (if errors \<noteq> [] then (\<lparr>status = 400, json = ErrorsB errors, cookie = NoCookie\<rparr>, st)
      else
        (case user_findOne st (l_email b) of
           None \<Rightarrow>
             (\<lparr>status = 401,
               json = ErrorB [0x90ae, 0x7bb1, 0x6216, 0x5bc6, 0x7801, 0x9519, 0x8bef],
               cookie = NoCookie\<rparr>, st)
         | Some found \<Rightarrow>
             (case compare (l_password b) (password found) of
                Inl error \<Rightarrow>
                  (\<lparr>status = 500,
                    json = ErrorB [0x767b, 0x5f55, 0x5931, 0x8d25, 0xff0c, 0x8bf7, 0x7a0d, 0x540e,
                                   0x91cd, 0x8bd5],
                    cookie = NoCookie\<rparr>, st)
              | Inr isPasswordValid \<Rightarrow>
                  if \<not> isPasswordValid then
                    (\<lparr>status = 401,
                      json = ErrorB [0x90ae, 0x7bb1, 0x6216, 0x5bc6, 0x7801, 0x9519, 0x8bef],
                      cookie = NoCookie\<rparr>, st)
                  else
                    let (u, st1) =
                          user_save (clock e) (found\<lparr>lastLoginAt := Some (clock e)\<rparr>) st;
                        accessToken = generateAccessToken (jwt_key e) (clock e) (u_id u);
                        refreshToken = fresh_token e;
                        st2 = rt_create (uuid2 e) (clock e) refreshToken (u_id u)
                                (getRefreshTokenExpiry (clock e)) st1
                    in (\<lparr>status = 200,
                         json = AuthB [0x767b, 0x5f55, 0x6210, 0x529f] (toJSON u) accessToken,
                         cookie = refresh_cookie e refreshToken\<rparr>, st2))))"

subsection \<open>Validation chains of the routes (routes/auth.js)\<close>

text \<open>
  The chains are built from express-validator.  A standard validator reads a field as
  a text, an undefined field as the empty text (\<open>to_text\<close>); every validator of a
  chain runs, so one field can leave several errors; the errors come in the order of
  the chains.  Whether \<open>isEmail\<close> accepts the address is a verdict of the library
  validator.js, a dependency: it enters as the Boolean \<open>email_ok\<close>.  A character
  of a \<open>string\<close> is a code unit below 256; for such a text \<open>isLength\<close> counts
  its length.
\<close>

definition to_text :: "string option \<Rightarrow> string" where
  "to_text v = (case v of None \<Rightarrow> [] | Some s \<Rightarrow> s)"

definition is_lower :: "char \<Rightarrow> bool" where
  "is_lower c = (97 \<le> (of_char c :: nat) \<and> (of_char c :: nat) \<le> 122)"

definition is_upper :: "char \<Rightarrow> bool" where
  "is_upper c = (65 \<le> (of_char c :: nat) \<and> (of_char c :: nat) \<le> 90)"

definition is_digit :: "char \<Rightarrow> bool" where
  "is_digit c = (48 \<le> (of_char c :: nat) \<and> (of_char c :: nat) \<le> 57)"

text \<open>A line terminator, which the dot of a regular expression does not match.\<close>

definition is_line_end :: "char \<Rightarrow> bool" where
  "is_line_end c = ((of_char c :: nat) = 10 \<or> (of_char c :: nat) = 13)"

text \<open>White space, which \<open>trim\<close> strips.\<close>

definition is_space :: "char \<Rightarrow> bool" where
  "is_space c = ((of_char c :: nat) \<in> {9, 10, 11, 12, 13, 32, 160})"

definition trim :: "string \<Rightarrow> string" where
  "trim s = rev (dropWhile is_space (rev (dropWhile is_space s)))"

text \<open>
  \<open>matches(/^(?=.*[a-z])(?=.*[A-Z])(?=.*\d)/)\<close>: each look-ahead starts at the
  beginning of the text and finds its letter or digit after characters the dot
  matches, that is before the first line terminator.
\<close>

definition matches_policy :: "string \<Rightarrow> bool" where
  "matches_policy s =
     (let line = takeWhile (\<lambda>c. \<not> is_line_end c) s
      in list_ex is_lower line \<and> list_ex is_upper line \<and> list_ex is_digit line)"

text \<open>The messages: a valid e-mail address is required; the password needs at least 8
  characters; the password must contain upper-case and lower-case letters and digits;
  the nickname must have 2 to 20 characters; a password is required.\<close>

definition err_email :: verror where
  "err_email =
     \<lparr>param = ''email'',
      msg = [0x8bf7, 0x63d0, 0x4f9b, 0x6709, 0x6548, 0x7684, 0x90ae, 0x7bb1, 0x5730, 0x5740]\<rparr>"

definition err_password_length :: verror where
  "err_password_length =
     \<lparr>param = ''password'',
      msg = [0x5bc6, 0x7801, 0x81f3, 0x5c11, 0x9700, 0x8981, 0x38, 0x4e2a, 0x5b57, 0x7b26]\<rparr>"

definition err_password_classes :: verror where
  "err_password_classes =
     \<lparr>param = ''password'',
      msg = [0x5bc6, 0x7801, 0x5fc5, 0x987b, 0x5305, 0x542b, 0x5927, 0x5c0f, 0x5199, 0x5b57,
             0x6bcd, 0x548c, 0x6570, 0x5b57]\<rparr>"

definition err_nickname :: verror where
  "err_nickname =
     \<lparr>param = ''nickname'',
      msg = [0x6635, 0x79f0, 0x957f, 0x5ea6, 0x5e94, 0x5728, 0x32, 0x2d, 0x32, 0x30, 0x4e2a,
             0x5b57, 0x7b26, 0x4e4b, 0x95f4]\<rparr>"

definition err_password_empty :: verror where
  "err_password_empty =
     \<lparr>param = ''password'', msg = [0x8bf7, 0x8f93, 0x5165, 0x5bc6, 0x7801]\<rparr>"

text \<open>\<open>registerValidation\<close>: the errors the three chains leave for the raw fields
  \<open>password\<close> and \<open>nickname\<close> of the body.\<close>

definition registerValidation :: "bool \<Rightarrow> string option \<Rightarrow> string option \<Rightarrow> verror list" where
  "registerValidation email_ok pw nick =
     (if email_ok then [] else [err_email]) @
     (if 8 \<le> length (to_text pw) then [] else [err_password_length]) @
     (if matches_policy (to_text pw) then [] else [err_password_classes]) @
     (case nick of
        None \<Rightarrow> []
      | Some n \<Rightarrow>
          if 2 \<le> length (trim n) \<and> length (trim n) \<le> 20 then [] else [err_nickname])"

text \<open>\<open>loginValidation\<close>.  \<open>notEmpty()\<close> reads the field as a text: an undefined
  field and the empty text are empty, a number never is.\<close>

definition is_empty_value :: "json_value option \<Rightarrow> bool" where
  "is_empty_value v =
     (case v of None \<Rightarrow> True | Some (JString s) \<Rightarrow> s = [] | Some (JNumber n) \<Rightarrow> False)"

definition loginValidation :: "bool \<Rightarrow> json_value option \<Rightarrow> verror list" where
  "loginValidation email_ok pw =
     (if email_ok then [] else [err_email]) @
     (if \<not> is_empty_value pw then [] else [err_password_empty])"

text \<open>
  \<open>router.post('/register', registerValidation, register)\<close>: the chains run on
  the raw body, then the controller reads the sanitized one, in which the address is
  what \<open>normalizeEmail\<close> (validator.js) made of it, \<open>normalized\<close>, and the nickname
  is trimmed.
\<close>

record raw_body =
  raw_password :: "string option"
  raw_nickname :: "string option"

definition post_register :: "env \<Rightarrow> bool \<Rightarrow> string \<Rightarrow> raw_body \<Rightarrow> db \<Rightarrow> response \<times> db" where
  "post_register e email_ok normalized raw st =
     register e (registerValidation email_ok (raw_password raw) (raw_nickname raw))
       \<lparr>b_email = normalized, b_password = to_text (raw_password raw),
        b_nickname = map_option trim (raw_nickname raw)\<rparr> st"

section \<open>Authentication middleware (middleware/auth.js)\<close>

text \<open>
  A middleware either answers the request or calls \<open>next()\<close>; \<open>Next u\<close> records
  what it left in \<open>req.user\<close>.  \<open>verify\<close> is \<open>jwt.verify(\<cdot>, JWT_SECRET)\<close> on the
  text taken from the header, and \<open>findById\<close> is
  \<open>User.findById(\<cdot>).select('-password')\<close>, which may throw, find nobody, or find a
  user; both are parameters.
\<close>

datatype 'u outcome = Respond response | Next "'u option"


text \<open>\<open>!authHeader || !authHeader.startsWith('Bearer ')\<close>.\<close>

definition no_bearer :: "string option \<Rightarrow> bool" where
  "no_bearer h = (case h of None \<Rightarrow> True | Some a \<Rightarrow> a = [] \<or> take 7 a \<noteq> ''Bearer '')"


definition optionalAuth ::
  "(string \<Rightarrow> js_error + payload) \<Rightarrow> (string \<Rightarrow> js_error + 'u option) \<Rightarrow> string option
     \<Rightarrow> 'u outcome" where
  "optionalAuth verify findById authHeader =
     (if no_bearer authHeader then Next None
      else
        (case verifyAccessToken verify (drop 7 (to_text authHeader)) of
           Inl err \<Rightarrow> Next None
         | Inr decoded \<Rightarrow>
             (case findById (userId decoded) of
                Inl err \<Rightarrow> Next None
              | Inr None \<Rightarrow> Next None
              | Inr (Some u) \<Rightarrow> Next (Some u))))"

section \<open>Session protocol, client side (contexts/AuthContext.tsx)\<close>

text \<open>
  The response interceptor set up by \<open>setupAxiosInterceptors\<close> runs on one thread;
  a call of the error handler runs without interruption up to its
  \<open>await refreshToken()\<close> and goes on when that promise settles.  The
  state is what the handler's closure holds (\<open>isRefreshing\<close>, \<open>failedQueue\<close>),
  the calls of the handler that wait at the \<open>await\<close> (\<open>awaiting\<close>: for each, its
  \<open>originalRequest\<close>), and the two entries of \<open>localStorage\<close> the code touches.
  A queue item stands for the continuation of the request it was pushed for.
\<close>

record request =
  req_id :: nat
  url :: "string option"
  retry :: bool
  authorization :: "string option"

record client =
  isRefreshing :: bool
  failedQueue :: "request list"
  awaiting :: "request list"
  accessToken :: "string option"
  lastLogin :: "string option"

text \<open>
  What the outside does to the interceptor: a request fails (\<open>error.config\<close>, and the
  status of \<open>error.response\<close> if there is a response), or the \<open>refreshToken()\<close>
  awaited for the request with this identifier resolves with a new access token, or is
  rejected.
\<close>

datatype event =
    ResponseError request "nat option"
  | RefreshResolved nat string
  | RefreshRejected nat

text \<open>
  What the interceptor does to the outside: it rejects the promise of a request, calls
  \<open>refreshToken()\<close> (which posts to \<open>/auth/refresh\<close>), sends a request again,
  rejects a queued continuation, or arms the timer that leads to the login page.
\<close>

datatype action =
    Reject nat
  | CallRefresh
  | Replay request
  | RejectQueued nat
  | RedirectToLogin

text \<open>\<open>s.includes(p)\<close>.\<close>

fun str_includes :: "string \<Rightarrow> string \<Rightarrow> bool" where
  "str_includes [] p = (p = [])"
| "str_includes (c # cs) p = (take (length p) (c # cs) = p \<or> str_includes cs p)"

text \<open>\<open>originalRequest.url?.includes('/auth/login') ||
  originalRequest.url?.includes('/auth/register')\<close>.\<close>

definition is_login_or_register :: "request \<Rightarrow> bool" where
  "is_login_or_register r =
     (case url r of
        None \<Rightarrow> False
      | Some u \<Rightarrow> str_includes u ''/auth/login'' \<or> str_includes u ''/auth/register'')"

definition bearer :: "string \<Rightarrow> request \<Rightarrow> request" where
  "bearer tok r = r\<lparr>authorization := Some (''Bearer '' @ tok)\<rparr>"

text \<open>The error handler, from its entry to its first return or to the \<open>await\<close>.\<close>

definition on_error :: "client \<Rightarrow> request \<Rightarrow> nat option \<Rightarrow> client \<times> action list" where
  "on_error c originalRequest response_status =
     (case response_status of
        None \<Rightarrow> (c, [Reject (req_id originalRequest)])
      | Some st \<Rightarrow>
          if st = 401 \<and> \<not> retry originalRequest then
            if is_login_or_register originalRequest then (c, [Reject (req_id originalRequest)])
            else if isRefreshing c then
              (c\<lparr>failedQueue := failedQueue c @ [originalRequest]\<rparr>, [])
            else
              (c\<lparr>isRefreshing := True,
                 awaiting := awaiting c @ [originalRequest\<lparr>retry := True\<rparr>]\<rparr>,
               [CallRefresh])
          else (c, [Reject (req_id originalRequest)]))"

text \<open>
  The handler after the \<open>await\<close>, when \<open>refreshToken()\<close> has stored and returned
  \<open>newToken\<close>: \<open>processQueue(null, newToken)\<close> resolves every queued promise and
  empties the queue, the request is sent again, \<open>finally\<close> clears the flag; then
  the continuations of the resolved promises send their requests again.
\<close>

definition on_refresh_resolved :: "client \<Rightarrow> request \<Rightarrow> string \<Rightarrow> client \<times> action list" where
  "on_refresh_resolved c originalRequest newToken =
     (c\<lparr>isRefreshing := False, failedQueue := [],
        awaiting := filter (\<lambda>r. req_id r \<noteq> req_id originalRequest) (awaiting c),
        accessToken := Some newToken\<rparr>,
      Replay (bearer newToken originalRequest) #
        map (\<lambda>q. Replay (bearer newToken q)) (failedQueue c))"

text \<open>
  The handler after the \<open>await\<close>, when \<open>refreshToken()\<close> was rejected:
  \<open>processQueue(refreshError, null)\<close> rejects every queued promise, the two
  entries of \<open>localStorage\<close> are removed, the timer is armed, and the request is
  rejected.
\<close>

definition on_refresh_rejected :: "client \<Rightarrow> request \<Rightarrow> client \<times> action list" where
  "on_refresh_rejected c originalRequest =
     (c\<lparr>isRefreshing := False, failedQueue := [],
        awaiting := filter (\<lambda>r. req_id r \<noteq> req_id originalRequest) (awaiting c),
        accessToken := None, lastLogin := None\<rparr>,
      map (\<lambda>q. RejectQueued (req_id q)) (failedQueue c) @
        [RedirectToLogin, Reject (req_id originalRequest)])"

text \<open>One event.  A settlement for a request that does not wait changes nothing.\<close>

definition step :: "client \<Rightarrow> event \<Rightarrow> client \<times> action list" where
  "step c ev =
     (case ev of
        ResponseError r st \<Rightarrow> on_error c r st
      | RefreshResolved i tok \<Rightarrow>
          (case find (\<lambda>r. req_id r = i) (awaiting c) of
             None \<Rightarrow> (c, [])
           | Some r \<Rightarrow> on_refresh_resolved c r tok)
      | RefreshRejected i \<Rightarrow>
          (case find (\<lambda>r. req_id r = i) (awaiting c) of
             None \<Rightarrow> (c, [])
           | Some r \<Rightarrow> on_refresh_rejected c r))"

text \<open>A sequence of events, with everything the interceptor did.\<close>

fun run :: "client \<Rightarrow> event list \<Rightarrow> client \<times> action list" where
  "run c [] = (c, [])"
| "run c (ev # evs) =
     (let (c1, acts1) = step c ev; (c2, acts2) = run c1 evs in (c2, acts1 @ acts2))"

text \<open>The interceptor as \<open>setupAxiosInterceptors\<close> leaves it, for a given content of
  \<open>localStorage\<close>.\<close>

definition interceptors_installed :: "string option \<Rightarrow> string option \<Rightarrow> client" where
  "interceptors_installed tok login_time =
     \<lparr>isRefreshing = False, failedQueue = [], awaiting = [], accessToken = tok,
      lastLogin = login_time\<rparr>"

text \<open>The number of calls of \<open>refreshToken()\<close> among some actions, and whether an
  event is a failed request.\<close>

definition refresh_calls :: "action list \<Rightarrow> nat" where
  "refresh_calls acts = length (filter (\<lambda>a. a = CallRefresh) acts)"

fun is_error_event :: "event \<Rightarrow> bool" where
  "is_error_event (ResponseError r st) = True"
| "is_error_event (RefreshResolved i tok) = False"
| "is_error_event (RefreshRejected i) = False"

section \<open>Predicates used in the statements\<close>


text \<open>Whether an action of the interceptor sends a request again or rejects a queued
  continuation.\<close>

fun is_resumption :: "action \<Rightarrow> bool" where
  "is_resumption (Replay r) = True"
| "is_resumption (RejectQueued i) = True"
| "is_resumption (Reject i) = False"
| "is_resumption CallRefresh = False"
| "is_resumption RedirectToLogin = False"

text \<open>
  The invariant of the interceptor: at most one call of the handler waits for
  \<open>refreshToken()\<close>, the flag is set exactly while one waits, and continuations are
  queued only while the flag is set.
\<close>

definition single_flight :: "client \<Rightarrow> bool" where
  "single_flight c =
     (length (awaiting c) \<le> 1 \<and> isRefreshing c = (awaiting c \<noteq> []) \<and>
      (isRefreshing c \<or> failedQueue c = []))"

section \<open>A running example\<close>

text \<open>
  The store as the module leaves it when loaded (both maps empty; what an unused
  address holds does not matter), the store after one login at time 0 that drew the
  refresh token \<open>R1\<close> for the user \<open>u1\<close>, the environment of a request at
  time \<open>t\<close> for which \<open>crypto.randomBytes\<close> yields \<open>tok\<close>, and the store after
  the registration of \<open>a@x.com\<close> at time 0.
\<close>

definition empty_db :: db where
  "empty_db =
     \<lparr>users = [],
      rt_obj = (\<lambda>a. \<lparr>rt_id = [], rt_token = [], rt_userId = [], rt_expiresAt = 0,
                      rt_createdAt = 0\<rparr>),
      rt_next = 0, refreshTokens = []\<rparr>"

definition one_session :: db where
  "one_session = rt_create ''id-1'' 0 ''R1'' ''u1'' (getRefreshTokenExpiry 0) empty_db"

definition request_env :: "time \<Rightarrow> string \<Rightarrow> env" where
  "request_env t tok =
     \<lparr>clock = t, jwt_key = JWT_SECRET None, production = False, fresh_token = tok,
      uuid1 = ''id-2'', uuid2 = ''id-3''\<rparr>"

definition registered :: db where
  "registered =
     snd (register (request_env 0 ''R1'') []
            \<lparr>b_email = ''a@x.com'', b_password = ''Abcd1234'', b_nickname = None\<rparr> empty_db)"

text \<open>
  The texts a client may send as bearer token, with the tokens they encode: the
  access token issued at time 0 to the user registered above, a token of another type
  signed with the same key at the same time, an access token issued at time 0 to a
  user the store does not have, and anything else, which is no JWT.  A lookup of users
  by identifier in the store above, without the password.
\<close>

definition example_wire :: "string \<Rightarrow> token" where
  "example_wire s =
     (if s = ''t-access'' then generateAccessToken (JWT_SECRET None) 0 ''id-2''
      else if s = ''t-reset'' then jwt_sign ''id-2'' ''reset'' (JWT_SECRET None) JWT_EXPIRES_IN 0
      else if s = ''t-gone'' then generateAccessToken (JWT_SECRET None) 0 ''id-9''
      else Garbage s)"

definition example_findById :: "string \<Rightarrow> js_error + public_user option" where
  "example_findById i = Inr (map_option toJSON (map_of (users registered) i))"

text \<open>
  The last step of \<open>bcrypt.compare\<close> in the examples.  It is never reached there:
  the in-memory model stores the password as given, and the password stored above does
  not have 60 characters.
\<close>

definition example_hashing :: "string \<Rightarrow> string \<Rightarrow> js_error + bool" where
  "example_hashing t hash = Inr False"

text \<open>Two requests to protected endpoints.\<close>

definition request_A :: request where
  "request_A = \<lparr>req_id = 1, url = Some ''/recordings'', retry = False,
                 authorization = Some ''Bearer old''\<rparr>"

definition request_B :: request where
  "request_B = \<lparr>req_id = 2, url = Some ''/auth/me'', retry = False,
                 authorization = Some ''Bearer old''\<rparr>"

lemmas ledger_eval =
  one_session_def empty_db_def rt_create_def rt_save_def getRefreshTokenExpiry_def
  REFRESH_TOKEN_EXPIRES_IN_def request_env_def refreshAccessToken_def rt_findOne_def
  rt_deleteOne_def Let_def refresh_cookie_def generateAccessToken_def jwt_sign_def
  JWT_EXPIRES_IN_def JWT_SECRET_def MissingToken_def InvalidOrExpiredToken_def

lemmas user_eval =
  registered_def register_def login_def user_findOne_def user_save_def new_User_def
  or_default_def before_at_def toJSON_def public_user.truncate_def loginValidation_def
  registerValidation_def to_text_def err_email_def err_password_length_def
  err_password_classes_def err_nickname_def err_password_empty_def matches_policy_def
  is_lower_def is_upper_def is_digit_def is_line_end_def is_space_def trim_def
  post_register_def is_empty_value_def bcrypt_compare_def example_hashing_def

lemmas client_eval =
  interceptors_installed_def request_A_def request_B_def step_def on_error_def
  on_refresh_resolved_def on_refresh_rejected_def is_login_or_register_def bearer_def
  refresh_calls_def

section \<open>The token issuer\<close>

text \<open>
  Claim C5, as the code has it.  Verifying the token \<open>generateAccessToken\<close> has just
  made, at the instant of issue and with the same secret, succeeds and returns the
  same user identifier with the type \<open>access\<close>.  \<open>jwt.verify\<close> checks the signature,
  then the expiry, and only then does \<open>verifyAccessToken\<close> look at the type: a token
  signed with the secret and not yet expired whose type is not \<open>access\<close> fails
  with the error "Invalid token type", and a token signed with the secret whose
  embedded expiry is not after the current second fails with \<open>TokenExpiredError\<close>.
\<close>

theorem verifyAccessToken_contract:
  "verifyAccessToken (jwt_verify secret now) (generateAccessToken secret now uid)
       = Inr \<lparr>userId = uid, tok_type = Some ''access'', iat = now div 1000,
               expiry = Some (now div 1000 + JWT_EXPIRES_IN)\<rparr>
   \<and> (tok_type p \<noteq> Some ''access'' \<and> (\<forall>x. expiry p = Some x \<longrightarrow> now div 1000 < x)
        \<longrightarrow> verifyAccessToken (jwt_verify secret now) (Signed secret p)
            = Inl (JsError ''Error'' ''Invalid token type''))
   \<and> (expiry p = Some x \<and> x \<le> now div 1000
        \<longrightarrow> verifyAccessToken (jwt_verify secret now) (Signed secret p)
            = Inl (JsError ''TokenExpiredError'' ''jwt expired''))"
  by (auto simp: verifyAccessToken_def generateAccessToken_def jwt_sign_def JWT_EXPIRES_IN_def
           split: option.splits)

text \<open>
  Claim C5 as the specification words it does not hold.  At second 2000, a token signed
  with the secret, of type \<open>refresh\<close>, that expired at second 900 fails as expired,
  not for its type; and a token that expired at second 900 but was signed with another
  key fails for its signature, not as expired.
\<close>

theorem verifyAccessToken_order_counterexample:
  "verifyAccessToken (jwt_verify ''k'' 2000000)
      (Signed ''k'' \<lparr>userId = ''u1'', tok_type = Some ''refresh'', iat = 0, expiry = Some 900\<rparr>)
     = Inl (JsError ''TokenExpiredError'' ''jwt expired'')
   \<and> verifyAccessToken (jwt_verify ''k'' 2000000)
      (Signed ''forged'' \<lparr>userId = ''u1'', tok_type = Some ''access'', iat = 0, expiry = Some 900\<rparr>)
     = Inl (JsError ''JsonWebTokenError'' ''invalid signature'')"
  by (simp add: verifyAccessToken_def)

text \<open>The contract at second 1000: a token of type \<open>refresh\<close> that expires at second
  5000, and one that expired at second 900.\<close>

theorem verifyAccessToken_contract_witness:
  "tok_type \<lparr>userId = ''u1'', tok_type = Some ''refresh'', iat = 0, expiry = Some 5000\<rparr>
       \<noteq> Some ''access''
   \<and> verifyAccessToken (jwt_verify ''k'' 1000000)
        (Signed ''k'' \<lparr>userId = ''u1'', tok_type = Some ''refresh'', iat = 0, expiry = Some 5000\<rparr>)
       = Inl (JsError ''Error'' ''Invalid token type'')
   \<and> (900::int) \<le> 1000000 div 1000
   \<and> verifyAccessToken (jwt_verify ''k'' 1000000)
        (Signed ''k'' \<lparr>userId = ''u1'', tok_type = Some ''access'', iat = 0, expiry = Some 900\<rparr>)
       = Inl (JsError ''TokenExpiredError'' ''jwt expired'')"
  using
    verifyAccessToken_contract [where secret = "''k''" and now = 1000000 and x = 0 and
      p = "\<lparr>userId = ''u1'', tok_type = Some ''refresh'', iat = 0, expiry = Some 5000\<rparr>"]
    verifyAccessToken_contract [where secret = "''k''" and now = 1000000 and x = 900 and
      p = "\<lparr>userId = ''u1'', tok_type = Some ''access'', iat = 0, expiry = Some 900\<rparr>"]
  by simp

section \<open>The refresh-token ledger and the handlers that use it\<close>

text \<open>
  Claim C1 is not met by the in-memory ledger.  \<open>save()\<close> sets the object under its
  new token value and leaves the entry under the old value in the map, so both keys
  lead to the one object, which now carries the new expiry.  After a refresh at time
  1000 that turns \<open>R1\<close> into \<open>R2\<close>, a lookup of \<open>R1\<close> at time 2000 still finds the
  object, as a lookup of \<open>R2\<close> does, the map has two entries, and a second refresh
  that presents \<open>R1\<close> is answered with status 200.
\<close>

theorem rotation_keeps_old_token_valid:
  "status (fst (refreshAccessToken (request_env 1000 ''R2'') (Some ''R1'') one_session)) = 200
   \<and> rt_findOne (snd (refreshAccessToken (request_env 1000 ''R2'') (Some ''R1'') one_session))
        ''R1'' (Some 2000) = Some 0
   \<and> rt_findOne (snd (refreshAccessToken (request_env 1000 ''R2'') (Some ''R1'') one_session))
        ''R2'' (Some 2000) = Some 0
   \<and> refreshTokens (snd (refreshAccessToken (request_env 1000 ''R2'') (Some ''R1'') one_session))
        = [(''R1'', 0), (''R2'', 0)]
   \<and> status (fst (refreshAccessToken (request_env 3000 ''R3'') (Some ''R1'')
        (snd (refreshAccessToken (request_env 1000 ''R2'') (Some ''R1'') one_session)))) = 200"
  by (simp add: ledger_eval)

text \<open>The same for every successful refresh: until the new expiry, the value that was
  presented is found again.\<close>

lemma refresh_old_key_still_found:
  assumes "rt_findOne st t (Some (clock e)) = Some a" and "fresh_token e \<noteq> t"
  shows "rt_findOne (snd (refreshAccessToken e (Some t) st)) t (Some n)
           = (if n < getRefreshTokenExpiry (clock e) then Some a else None)"
  using assms
  by (auto simp: refreshAccessToken_def rt_findOne_def Let_def rt_save_def update_conv'
           split: option.splits if_splits)

text \<open>What a successful refresh does do: the answer carries a new access token for the
  owner of the record and the cookie the new refresh token; the object found is updated
  in place, and until the new expiry its new token value leads to it.\<close>

lemma refresh_rotates_in_place:
  assumes "rt_findOne st t (Some (clock e)) = Some a" and "fresh_token e \<noteq> []"
  shows
    "fst (refreshAccessToken e (Some t) st)
       = \<lparr>status = 200,
          json = TokenB (generateAccessToken (jwt_key e) (clock e) (rt_userId (rt_obj st a))),
          cookie = refresh_cookie e (fresh_token e)\<rparr>
     \<and> rt_obj (snd (refreshAccessToken e (Some t) st)) a
       = (rt_obj st a)\<lparr>rt_token := fresh_token e,
                        rt_expiresAt := clock e + REFRESH_TOKEN_EXPIRES_IN\<rparr>
     \<and> rt_findOne (snd (refreshAccessToken e (Some t) st)) (fresh_token e) (Some n)
       = (if n < clock e + REFRESH_TOKEN_EXPIRES_IN then Some a else None)"
  using assms
  by (auto simp: refreshAccessToken_def rt_findOne_def Let_def rt_save_def update_conv'
                 getRefreshTokenExpiry_def
           split: option.splits if_splits)

text \<open>
  Claim C4.  \<open>refreshAccessToken\<close> answers a request without a refresh-token cookie
  (none, or an empty one) with the 401 "no refresh token provided", and a request whose
  token \<open>findOne\<close> does not find with the 401 "invalid or expired refresh token";
  neither changes the store.  \<open>findOne\<close> returns the object under the key only if its
  \<open>expiresAt\<close> is strictly greater than the date asked for, so an entry that has
  expired is answered as a missing one is.
\<close>

theorem refresh_missing_or_invalid:
  "(ck = None \<or> ck = Some [] \<longrightarrow> refreshAccessToken e ck st = (MissingToken, st))
   \<and> (t \<noteq> [] \<and> rt_findOne st t (Some (clock e)) = None
        \<longrightarrow> refreshAccessToken e (Some t) st = (InvalidOrExpiredToken, st))
   \<and> status MissingToken = 401 \<and> status InvalidOrExpiredToken = 401
   \<and> (rt_findOne st t (Some n) = Some a
        \<longrightarrow> map_of (refreshTokens st) t = Some a \<and> n < rt_expiresAt (rt_obj st a))
   \<and> (map_of (refreshTokens st) t = Some a \<and> rt_expiresAt (rt_obj st a) \<le> n
        \<longrightarrow> rt_findOne st t (Some n) = None)
   \<and> (map_of (refreshTokens st) t = None \<longrightarrow> rt_findOne st t (Some n) = None)
   \<and> (t \<noteq> [] \<and> map_of (refreshTokens st) t = Some a \<and> rt_expiresAt (rt_obj st a) \<le> clock e
        \<longrightarrow> refreshAccessToken e (Some t) st = (InvalidOrExpiredToken, st))
   \<and> (t \<noteq> [] \<and> map_of (refreshTokens st) t = None
        \<longrightarrow> refreshAccessToken e (Some t) st = (InvalidOrExpiredToken, st))"
  by (auto simp: refreshAccessToken_def rt_findOne_def MissingToken_def
                 InvalidOrExpiredToken_def
           split: option.splits if_splits)

text \<open>In the running example: no cookie; \<open>R1\<close> presented after its expiry, at time
  604800000; \<open>R1\<close> looked up at time 1000; a token that was never issued.\<close>

theorem refresh_missing_or_invalid_witness:
  "refreshAccessToken (request_env 604800000 ''R2'') None one_session
       = (MissingToken, one_session)
   \<and> map_of (refreshTokens one_session) ''R1'' = Some 0
   \<and> rt_expiresAt (rt_obj one_session 0) \<le> 604800000
   \<and> rt_findOne one_session ''R1'' (Some 604800000) = None
   \<and> refreshAccessToken (request_env 604800000 ''R2'') (Some ''R1'') one_session
       = (InvalidOrExpiredToken, one_session)
   \<and> rt_findOne one_session ''R1'' (Some 1000) = Some 0
   \<and> map_of (refreshTokens one_session) ''R0'' = None
   \<and> refreshAccessToken (request_env 1000 ''R2'') (Some ''R0'') one_session
       = (InvalidOrExpiredToken, one_session)"
  using
    refresh_missing_or_invalid [where ck = None and e = "request_env 604800000 ''R2''" and
      st = one_session and t = "''R1''" and n = 604800000 and a = 0]
    refresh_missing_or_invalid [where ck = None and e = "request_env 1000 ''R2''" and
      st = one_session and t = "''R0''" and n = 1000 and a = 0]
    refresh_missing_or_invalid [where ck = None and e = "request_env 1000 ''R2''" and
      st = one_session and t = "''R1''" and n = 1000 and a = 0]
  by (simp add: ledger_eval)

lemma alist_delete_absent: "map_of xs k = None \<Longrightarrow> AList.delete k xs = xs"
  by (induction xs) (auto split: if_splits)

text \<open>
  Claim C6.  \<open>logout\<close> always answers with status 200, the message "logged out" and a
  cleared cookie, whatever the cookie and the ledger are.  Afterwards no lookup with
  the token of the cookie finds anything, and a second call with the same cookie gives
  the same answer and leaves the ledger as the first call left it.  Without a cookie,
  or when the map has no entry under the token, the ledger is not changed at all.
\<close>

theorem logout_idempotent:
  "fst (logout ck st)
       = \<lparr>status = 200, json = MessageB [0x767b, 0x51fa, 0x6210, 0x529f], cookie = ClearCookie\<rparr>
   \<and> logout ck (snd (logout ck st)) = logout ck st
   \<and> (ck = Some t \<longrightarrow> rt_findOne (snd (logout ck st)) t gt = None)
   \<and> (ck = None \<or> ck = Some [] \<longrightarrow> snd (logout ck st) = st)
   \<and> (ck = Some t \<and> map_of (refreshTokens st) t = None \<longrightarrow> snd (logout ck st) = st)"
  by (auto simp: logout_def rt_deleteOne_def rt_findOne_def Let_def delete_conv'
                 alist_delete_absent delete_idem
           split: option.splits if_splits)

text \<open>In the running example: \<open>R1\<close> is found before the logout and not after it, the
  second logout repeats the first, and a logout without a cookie leaves the ledger.\<close>

theorem logout_idempotent_witness:
  "rt_findOne one_session ''R1'' (Some 1000) = Some 0
   \<and> status (fst (logout (Some ''R1'') one_session)) = 200
   \<and> rt_findOne (snd (logout (Some ''R1'') one_session)) ''R1'' (Some 1000) = None
   \<and> map_of (refreshTokens (snd (logout (Some ''R1'') one_session))) ''R1'' = None
   \<and> logout (Some ''R1'') (snd (logout (Some ''R1'') one_session))
       = logout (Some ''R1'') one_session
   \<and> snd (logout (Some ''R1'') (snd (logout (Some ''R1'') one_session)))
       = snd (logout (Some ''R1'') one_session)
   \<and> logout None one_session
       = (\<lparr>status = 200, json = MessageB [0x767b, 0x51fa, 0x6210, 0x529f],
           cookie = ClearCookie\<rparr>, one_session)"
  using
    logout_idempotent [where ck = "Some ''R1''" and st = one_session and t = "''R1''" and
      gt = "Some 1000"]
    logout_idempotent [where ck = "Some ''R1''" and
      st = "snd (logout (Some ''R1'') one_session)" and t = "''R1''" and gt = "Some 1000"]
    logout_idempotent [where ck = None and st = one_session and t = "''R1''" and
      gt = "Some 1000"]
  by (simp add: ledger_eval logout_def)

section \<open>Registration and login\<close>

text \<open>
  Claim C7.  The route \<open>POST /register\<close> answers every body that breaks a rule with
  status 400 and the list of all validation errors, and creates nothing.  The list
  holds the error of each rule that is broken: the one for the e-mail format when
  \<open>isEmail\<close> refuses the address, the one for the length when the password has fewer
  than 8 characters, and the one for the character classes when the password lacks a
  lower-case letter, an upper-case letter or a digit (one rule and one message in the
  source); the three errors differ.  When a user with the address of the body exists,
  the answer has status 400 and nothing is created, whatever else the body holds; for
  a body that breaks no rule it is "this e-mail address is already registered".
\<close>

theorem register_rejects_invalid_input:
  "(\<not> email_ok \<longrightarrow> err_email \<in> set (registerValidation email_ok pw nick))
   \<and> (length (to_text pw) < 8
        \<longrightarrow> err_password_length \<in> set (registerValidation email_ok pw nick))
   \<and> (\<not> list_ex is_lower (to_text pw) \<or> \<not> list_ex is_upper (to_text pw)
         \<or> \<not> list_ex is_digit (to_text pw)
        \<longrightarrow> err_password_classes \<in> set (registerValidation email_ok pw nick))
   \<and> (\<not> email_ok \<or> length (to_text pw) < 8 \<or> \<not> list_ex is_lower (to_text pw)
         \<or> \<not> list_ex is_upper (to_text pw) \<or> \<not> list_ex is_digit (to_text pw)
        \<longrightarrow> post_register e email_ok normalized \<lparr>raw_password = pw, raw_nickname = nick\<rparr> st
            = (\<lparr>status = 400, json = ErrorsB (registerValidation email_ok pw nick),
                cookie = NoCookie\<rparr>, st))
   \<and> (user_findOne st normalized = Some u
        \<longrightarrow> status (fst (post_register e email_ok normalized
                           \<lparr>raw_password = pw, raw_nickname = nick\<rparr> st)) = 400
            \<and> snd (post_register e email_ok normalized
                      \<lparr>raw_password = pw, raw_nickname = nick\<rparr> st) = st
            \<and> (registerValidation email_ok pw nick = []
                 \<longrightarrow> post_register e email_ok normalized
                       \<lparr>raw_password = pw, raw_nickname = nick\<rparr> st
                     = (\<lparr>status = 400,
                         json = ErrorB [0x8be5, 0x90ae, 0x7bb1, 0x5df2, 0x88ab, 0x6ce8, 0x518c],
                         cookie = NoCookie\<rparr>, st)))
   \<and> distinct [err_email, err_password_length, err_password_classes]"
proof -
  have prefix: "\<not> list_ex P (takeWhile (\<lambda>c. \<not> is_line_end c) (to_text pw))"
    if "\<not> list_ex P (to_text pw)" for P
    using that by (auto simp: list_ex_iff dest: set_takeWhileD)
  have classes: "\<not> matches_policy (to_text pw)"
    if "\<not> list_ex is_lower (to_text pw) \<or> \<not> list_ex is_upper (to_text pw)
        \<or> \<not> list_ex is_digit (to_text pw)"
    using that prefix by (auto simp: matches_policy_def Let_def)
  have differ: "distinct [err_email, err_password_length, err_password_classes]"
    by (simp add: err_email_def err_password_length_def err_password_classes_def)
  show ?thesis
    using classes differ by (auto simp: registerValidation_def post_register_def register_def)
qed

text \<open>A malformed address with the password \<open>abc\<close> leaves all three errors; a
  well-formed body with the address registered above is refused as taken.\<close>

theorem register_rejects_invalid_input_witness:
  "post_register (request_env 5 ''R5'') False ''nobody'' \<lparr>raw_password = Some ''abc'', raw_nickname = None\<rparr>
       registered
     = (\<lparr>status = 400, json = ErrorsB [err_email, err_password_length, err_password_classes],
         cookie = NoCookie\<rparr>, registered)
   \<and> registerValidation True (Some ''Abcd1234'') None = []
   \<and> map_option email (user_findOne registered ''a@x.com'') = Some ''a@x.com''
   \<and> post_register (request_env 5 ''R5'') True ''a@x.com''
         \<lparr>raw_password = Some ''Abcd1234'', raw_nickname = None\<rparr> registered
     = (\<lparr>status = 400,
         json = ErrorB [0x8be5, 0x90ae, 0x7bb1, 0x5df2, 0x88ab, 0x6ce8, 0x518c],
         cookie = NoCookie\<rparr>, registered)"
  using
    register_rejects_invalid_input [where email_ok = False and pw = "Some ''abc''" and
      nick = None and e = "request_env 5 ''R5''" and normalized = "''nobody''" and
      st = registered]
    register_rejects_invalid_input [where email_ok = True and pw = "Some ''Abcd1234''" and
      nick = None and e = "request_env 5 ''R5''" and normalized = "''a@x.com''" and
      st = registered and
      u = "\<lparr>u_id = ''id-2'', email = ''a@x.com'', nickname = ''a'', avatar = None,
             isEmailVerified = False, u_createdAt = 0, u_updatedAt = 0, lastLoginAt = None,
             password = ''Abcd1234''\<rparr>"]
  by (simp add: user_eval ledger_eval)

text \<open>
  Claim C10.  When \<open>register\<close> creates a user (no validation error, no user with the
  address), the user stored under the new identifier, who is also the one in the
  answer, has the address of the body; the nickname is the part of the address before
  its first \<open>@\<close> when the body has no nickname or an empty one, and the nickname of
  the body otherwise.  \<open>before_at s\<close> has no \<open>@\<close>, and \<open>s\<close> goes on after it
  with an \<open>@\<close> or not at all.
\<close>

theorem register_nickname_default:
  "(errors = [] \<and> user_findOne st (b_email b) = None
      \<longrightarrow> (\<exists>u tok.
             map_of (users (snd (register e errors b st))) (uuid1 e) = Some u
           \<and> fst (register e errors b st)
               = \<lparr>status = 201, json = AuthB [0x6ce8, 0x518c, 0x6210, 0x529f] (toJSON u) tok,
                  cookie = refresh_cookie e (fresh_token e)\<rparr>
           \<and> email u = b_email b
           \<and> nickname (toJSON u) = nickname u
           \<and> (b_nickname b = None \<or> b_nickname b = Some []
                \<longrightarrow> nickname u = before_at (b_email b))
           \<and> (\<forall>n. b_nickname b = Some n \<and> n \<noteq> [] \<longrightarrow> nickname u = n)))
   \<and> CHR ''@'' \<notin> set (before_at s)
   \<and> (\<exists>rest. s = before_at s @ rest \<and> (rest = [] \<or> hd rest = CHR ''@''))"
proof -
  have created: "errors = [] \<and> user_findOne st (b_email b) = None
      \<longrightarrow> (\<exists>u tok.
             map_of (users (snd (register e errors b st))) (uuid1 e) = Some u
           \<and> fst (register e errors b st)
               = \<lparr>status = 201, json = AuthB [0x6ce8, 0x518c, 0x6210, 0x529f] (toJSON u) tok,
                  cookie = refresh_cookie e (fresh_token e)\<rparr>
           \<and> email u = b_email b
           \<and> nickname (toJSON u) = nickname u
           \<and> (b_nickname b = None \<or> b_nickname b = Some []
                \<longrightarrow> nickname u = before_at (b_email b))
           \<and> (\<forall>n. b_nickname b = Some n \<and> n \<noteq> [] \<longrightarrow> nickname u = n))"
    by (auto simp: register_def user_save_def new_User_def or_default_def Let_def
                   rt_create_def rt_save_def update_conv' toJSON_def public_user.truncate_def
             split: option.splits)
  have no_at: "CHR ''@'' \<notin> set (before_at s)"
    unfolding before_at_def by (auto dest: set_takeWhileD)
  have whole: "s = before_at s @ dropWhile (\<lambda>c. c \<noteq> CHR ''@'') s"
    unfolding before_at_def by simp
  have at: "dropWhile (\<lambda>c. c \<noteq> CHR ''@'') s = []
            \<or> hd (dropWhile (\<lambda>c. c \<noteq> CHR ''@'') s) = CHR ''@''"
    using hd_dropWhile [of "\<lambda>c. c \<noteq> CHR ''@''" s] by auto
  from whole at have rest: "\<exists>rest. s = before_at s @ rest \<and> (rest = [] \<or> hd rest = CHR ''@'')"
    by blast
  from created no_at rest show ?thesis by blast
qed

text \<open>Three registrations of \<open>a@x.com\<close> in the empty store: without a nickname, with
  an empty one, and with the nickname \<open>Bob\<close>.\<close>

theorem register_nickname_default_witness:
  "user_findOne empty_db ''a@x.com'' = None
   \<and> map_option nickname (map_of (users (snd (register (request_env 0 ''R1'') []
         \<lparr>b_email = ''a@x.com'', b_password = ''Abcd1234'', b_nickname = None\<rparr> empty_db)))
         ''id-2'') = Some ''a''
   \<and> map_option nickname (map_of (users (snd (register (request_env 0 ''R1'') []
         \<lparr>b_email = ''a@x.com'', b_password = ''Abcd1234'', b_nickname = Some []\<rparr> empty_db)))
         ''id-2'') = Some ''a''
   \<and> map_option nickname (map_of (users (snd (register (request_env 0 ''R1'') []
         \<lparr>b_email = ''a@x.com'', b_password = ''Abcd1234'', b_nickname = Some ''Bob''\<rparr>
         empty_db))) ''id-2'') = Some ''Bob''
   \<and> before_at ''a@x.com'' = ''a''"
  using
    register_nickname_default [where errors = "[]" and st = empty_db and
      e = "request_env 0 ''R1''" and s = "''a@x.com''" and
      b = "\<lparr>b_email = ''a@x.com'', b_password = ''Abcd1234'', b_nickname = None\<rparr>"]
    register_nickname_default [where errors = "[]" and st = empty_db and
      e = "request_env 0 ''R1''" and s = "''a@x.com''" and
      b = "\<lparr>b_email = ''a@x.com'', b_password = ''Abcd1234'', b_nickname = Some []\<rparr>"]
    register_nickname_default [where errors = "[]" and st = empty_db and
      e = "request_env 0 ''R1''" and s = "''a@x.com''" and
      b = "\<lparr>b_email = ''a@x.com'', b_password = ''Abcd1234'', b_nickname = Some ''Bob''\<rparr>"]
  by (simp add: user_eval ledger_eval)




section \<open>The authentication middleware\<close>




text \<open>
  Claim C9.  \<open>optionalAuth\<close> never answers the request itself: whatever the header,
  the verifier and the lookup do, it calls \<open>next()\<close>.  It leaves a user in
  \<open>req.user\<close> exactly when the header carries a bearer token that
  \<open>verifyAccessToken\<close> accepts and the lookup finds the user of the token, and that
  user is the one it leaves.
\<close>

theorem optionalAuth_never_fails:
  "(\<exists>v. optionalAuth verify findById h = Next v)
   \<and> (\<forall>r. optionalAuth verify findById h \<noteq> Respond r)
   \<and> (optionalAuth verify findById h = Next (Some u)
        \<longleftrightarrow> \<not> no_bearer h
            \<and> (\<exists>d. verifyAccessToken verify (drop 7 (to_text h)) = Inr d
                   \<and> findById (userId d) = Inr (Some u)))"
  by (auto simp: optionalAuth_def split: sum.splits option.splits if_splits)

text \<open>In the running example: no header, the expired token, a text that is no JWT,
  the token of another type, and the access token at second 1.\<close>

theorem optionalAuth_never_fails_witness:
  "optionalAuth (jwt_verify (JWT_SECRET None) 1000 \<circ> example_wire) example_findById None
       = Next None
   \<and> optionalAuth (jwt_verify (JWT_SECRET None) 900000 \<circ> example_wire) example_findById
        (Some ''Bearer t-access'') = Next None
   \<and> optionalAuth (jwt_verify (JWT_SECRET None) 1000 \<circ> example_wire) example_findById
        (Some ''Bearer junk'') = Next None
   \<and> optionalAuth (jwt_verify (JWT_SECRET None) 1000 \<circ> example_wire) example_findById
        (Some ''Bearer t-reset'') = Next None
   \<and> optionalAuth (jwt_verify (JWT_SECRET None) 1000 \<circ> example_wire) example_findById
        (Some ''Bearer t-access'')
       = Next (Some \<lparr>u_id = ''id-2'', email = ''a@x.com'', nickname = ''a'', avatar = None,
                     isEmailVerified = False, u_createdAt = 0, u_updatedAt = 0,
                     lastLoginAt = None\<rparr>)"
  using
    optionalAuth_never_fails [where h = "Some ''Bearer t-access''" and
      verify = "jwt_verify (JWT_SECRET None) 1000 \<circ> example_wire" and
      findById = example_findById and
      u = "\<lparr>u_id = ''id-2'', email = ''a@x.com'', nickname = ''a'', avatar = None,
             isEmailVerified = False, u_createdAt = 0, u_updatedAt = 0, lastLoginAt = None\<rparr>"]
  by (simp add: user_eval ledger_eval optionalAuth_def verifyAccessToken_def no_bearer_def
                example_wire_def example_findById_def)

section \<open>The response interceptor of the client\<close>

lemma single_flight_init: "single_flight (interceptors_installed tok ll)"
  by (simp add: single_flight_def interceptors_installed_def)

lemma awaiting_single:
  assumes "length xs \<le> 1" and "find P xs = Some r"
  shows "xs = [r]"
  using assms by (cases xs) (auto split: if_splits)

lemma single_flight_step:
  assumes "single_flight c"
  shows "single_flight (fst (step c ev))"
proof (cases ev)
  case (ResponseError r st)
  then show ?thesis
    using assms by (auto simp: step_def on_error_def single_flight_def split: option.splits)
next
  case (RefreshResolved i tok)
  show ?thesis
  proof (cases "find (\<lambda>r. req_id r = i) (awaiting c)")
    case None
    then show ?thesis
      using assms RefreshResolved by (simp add: step_def)
  next
    case (Some r)
    with assms have "awaiting c = [r]"
      by (auto simp: single_flight_def intro: awaiting_single)
    then show ?thesis
      using Some RefreshResolved
      by (simp add: step_def on_refresh_resolved_def single_flight_def)
  qed
next
  case (RefreshRejected i)
  show ?thesis
  proof (cases "find (\<lambda>r. req_id r = i) (awaiting c)")
    case None
    then show ?thesis
      using assms RefreshRejected by (simp add: step_def)
  next
    case (Some r)
    with assms have "awaiting c = [r]"
      by (auto simp: single_flight_def intro: awaiting_single)
    then show ?thesis
      using Some RefreshRejected
      by (simp add: step_def on_refresh_rejected_def single_flight_def)
  qed
qed

lemma single_flight_run: "single_flight c \<Longrightarrow> single_flight (fst (run c evs))"
proof (induction evs arbitrary: c)
  case Nil
  then show ?case by simp
next
  case (Cons ev evs)
  from Cons.prems have "single_flight (fst (step c ev))"
    by (rule single_flight_step)
  then have "single_flight (fst (run (fst (step c ev)) evs))"
    by (rule Cons.IH)
  then show ?case
    by (simp add: case_prod_unfold Let_def)
qed

text \<open>While only failed requests come in, at most one refresh is called, counting the
  one that may already be under way, and nothing is resumed.\<close>

lemma errors_one_call:
  assumes "single_flight c" and "\<forall>ev \<in> set evs. is_error_event ev"
  shows "refresh_calls (snd (run c evs)) + length (awaiting c) \<le> 1
         \<and> \<not> list_ex is_resumption (snd (run c evs))"
  using assms
proof (induction evs arbitrary: c)
  case Nil
  then show ?case
    by (simp add: refresh_calls_def single_flight_def)
next
  case (Cons ev evs)
  from Cons.prems(2) obtain r st where ev: "ev = ResponseError r st"
    by (cases ev) auto
  let ?c1 = "fst (step c ev)"
  have sf1: "single_flight ?c1"
    using Cons.prems(1) by (rule single_flight_step)
  have ih: "refresh_calls (snd (run ?c1 evs)) + length (awaiting ?c1) \<le> 1
            \<and> \<not> list_ex is_resumption (snd (run ?c1 evs))"
    using Cons.IH [OF sf1] Cons.prems(2) by simp
  have run_eq: "snd (run c (ev # evs)) = snd (step c ev) @ snd (run ?c1 evs)"
    by (simp add: case_prod_unfold Let_def)
  have "(snd (step c ev) = [CallRefresh] \<and> awaiting c = [] \<and> length (awaiting ?c1) = 1)
        \<or> (refresh_calls (snd (step c ev)) = 0 \<and> awaiting ?c1 = awaiting c
            \<and> \<not> list_ex is_resumption (snd (step c ev)))"
    using Cons.prems(1) unfolding ev
    by (auto simp: step_def on_error_def single_flight_def refresh_calls_def
             split: option.splits)
  then show ?case
  proof
    assume "snd (step c ev) = [CallRefresh] \<and> awaiting c = [] \<and> length (awaiting ?c1) = 1"
    with ih show ?thesis
      unfolding run_eq by (simp add: refresh_calls_def)
  next
    assume "refresh_calls (snd (step c ev)) = 0 \<and> awaiting ?c1 = awaiting c
            \<and> \<not> list_ex is_resumption (snd (step c ev))"
    with ih show ?thesis
      unfolding run_eq by (simp add: refresh_calls_def)
  qed
qed

text \<open>
  Claim C2.  Let \<open>c\<close> be the interceptor after any sequence of events since it was
  installed.  At most one call of \<open>refreshToken()\<close> is under way, and the flag is set
  exactly then.  Over any further failed requests, as long as no refresh settles, at
  most one refresh is called in all (none if one is under way already), and no request
  is sent again and no queued continuation rejected.  A 401 for a request that has not
  been retried and is no login or registration, when no refresh is under way, sets the
  flag and calls the refresh; when one is under way, it only appends the continuation
  to the queue.  When the refresh that is under way settles, every queued continuation
  is resumed in that step, sent again with the new token or rejected, and the queue is
  empty afterwards.
\<close>

theorem refresh_is_single_flight:
  assumes "c = fst (run (interceptors_installed tok ll) pre)"
  shows
    "length (awaiting c) \<le> 1 \<and> isRefreshing c = (awaiting c \<noteq> [])
     \<and> ((\<forall>ev \<in> set evs. is_error_event ev)
          \<longrightarrow> refresh_calls (snd (run c evs)) + length (awaiting c) \<le> 1
              \<and> \<not> list_ex is_resumption (snd (run c evs)))
     \<and> (\<not> isRefreshing c \<and> \<not> retry r \<and> \<not> is_login_or_register r
          \<longrightarrow> step c (ResponseError r (Some 401))
                = (c\<lparr>isRefreshing := True, awaiting := [r\<lparr>retry := True\<rparr>]\<rparr>, [CallRefresh]))
     \<and> (isRefreshing c \<and> \<not> retry r \<and> \<not> is_login_or_register r
          \<longrightarrow> step c (ResponseError r (Some 401))
                = (c\<lparr>failedQueue := failedQueue c @ [r]\<rparr>, []))
     \<and> (awaiting c = [w]
          \<longrightarrow> step c (RefreshResolved (req_id w) newToken)
                = (c\<lparr>isRefreshing := False, failedQueue := [], awaiting := [],
                     accessToken := Some newToken\<rparr>,
                   Replay (bearer newToken w) #
                     map (\<lambda>q. Replay (bearer newToken q)) (failedQueue c))
              \<and> step c (RefreshRejected (req_id w))
                = (c\<lparr>isRefreshing := False, failedQueue := [], awaiting := [],
                     accessToken := None, lastLogin := None\<rparr>,
                   map (\<lambda>q. RejectQueued (req_id q)) (failedQueue c) @
                     [RedirectToLogin, Reject (req_id w)]))"
proof -
  have sf: "single_flight c"
    unfolding assms using single_flight_init by (rule single_flight_run)
  have one: "length (awaiting c) \<le> 1 \<and> isRefreshing c = (awaiting c \<noteq> [])"
    using sf by (simp add: single_flight_def)
  have calls: "(\<forall>ev \<in> set evs. is_error_event ev)
      \<longrightarrow> refresh_calls (snd (run c evs)) + length (awaiting c) \<le> 1
          \<and> \<not> list_ex is_resumption (snd (run c evs))"
    using errors_one_call [OF sf] by blast
  have first: "\<not> isRefreshing c \<and> \<not> retry r \<and> \<not> is_login_or_register r
      \<longrightarrow> step c (ResponseError r (Some 401))
            = (c\<lparr>isRefreshing := True, awaiting := [r\<lparr>retry := True\<rparr>]\<rparr>, [CallRefresh])"
    using one by (simp add: step_def on_error_def)
  have later: "isRefreshing c \<and> \<not> retry r \<and> \<not> is_login_or_register r
      \<longrightarrow> step c (ResponseError r (Some 401)) = (c\<lparr>failedQueue := failedQueue c @ [r]\<rparr>, [])"
    by (simp add: step_def on_error_def)
  have settle: "awaiting c = [w]
      \<longrightarrow> step c (RefreshResolved (req_id w) newToken)
            = (c\<lparr>isRefreshing := False, failedQueue := [], awaiting := [],
                 accessToken := Some newToken\<rparr>,
               Replay (bearer newToken w) #
                 map (\<lambda>q. Replay (bearer newToken q)) (failedQueue c))
          \<and> step c (RefreshRejected (req_id w))
            = (c\<lparr>isRefreshing := False, failedQueue := [], awaiting := [],
                 accessToken := None, lastLogin := None\<rparr>,
               map (\<lambda>q. RejectQueued (req_id q)) (failedQueue c) @
                 [RedirectToLogin, Reject (req_id w)])"
    by (simp add: step_def on_refresh_resolved_def on_refresh_rejected_def)
  from one calls first later settle show ?thesis
    by blast
qed

text \<open>
  Two requests to protected endpoints fail with 401 one after the other while no
  refresh is under way: the first calls the refresh, the second is queued, and when
  the refresh resolves with the token \<open>new\<close> both are sent again with it; one
  refresh was called in all.
\<close>

theorem refresh_is_single_flight_witness:
  "fst (run (interceptors_installed (Some ''old'') None) [ResponseError request_A (Some 401)])
       = \<lparr>isRefreshing = True, failedQueue = [], awaiting = [request_A\<lparr>retry := True\<rparr>],
          accessToken = Some ''old'', lastLogin = None\<rparr>
   \<and> is_error_event (ResponseError request_B (Some 401))
   \<and> \<not> retry request_B \<and> \<not> is_login_or_register request_B
   \<and> run (interceptors_installed (Some ''old'') None)
        [ResponseError request_A (Some 401), ResponseError request_B (Some 401),
         RefreshResolved 1 ''new'']
       = (\<lparr>isRefreshing = False, failedQueue = [], awaiting = [], accessToken = Some ''new'',
           lastLogin = None\<rparr>,
          [CallRefresh,
           Replay (request_A\<lparr>retry := True, authorization := Some ''Bearer new''\<rparr>),
           Replay (request_B\<lparr>authorization := Some ''Bearer new''\<rparr>)])
   \<and> refresh_calls (snd (run (interceptors_installed (Some ''old'') None)
        [ResponseError request_A (Some 401), ResponseError request_B (Some 401),
         RefreshResolved 1 ''new''])) = 1"
  using
    refresh_is_single_flight [where tok = "Some ''old''" and ll = None and
      pre = "[ResponseError request_A (Some 401)]" and
      c = "fst (run (interceptors_installed (Some ''old'') None)
                 [ResponseError request_A (Some 401)])" and
      evs = "[ResponseError request_B (Some 401)]" and r = request_B and
      w = "request_A\<lparr>retry := True\<rparr>" and newToken = "''new''"]
  by (simp add: client_eval)

end
